theory Spec2Isabelle
  imports Main "HOL-Library.AList" "HOL-Library.Char_ord" "HOL-Library.List_Lexorder"
    "HOL-Library.Product_Lexorder"
begin

section \<open>pgdatadiff: the comparison engine of \<^verbatim>\<open>src/pgdatadiff/pgdatadiff.py\<close>\<close>

text \<open>
  The module compares two PostgreSQL databases through two SQLAlchemy sessions. The
  embedding keeps the module's functions (\<^verbatim>\<open>retry\<close>, \<^verbatim>\<open>DBDiff.diff_table_data\<close>,
  \<^verbatim>\<open>DBDiff.diff_sequence\<close>, \<^verbatim>\<open>DBDiff.diff_all_sequences\<close>,
  \<^verbatim>\<open>DBDiff.diff_all_table_data\<close>, \<^verbatim>\<open>DBDiff.create_aggregate_functions\<close>,
  \<^verbatim>\<open>StatusUpdate\<close>) as functions on an explicit world: the two sessions, the
  delays slept so far, whether standard output is a terminal, and what the spinner
  has shown. An exception is the \<open>Inl\<close> of a sum, a loop that need not end is a
  \<^theory_text>\<open>partial_function\<close> whose value \<open>None\<close> is "does not return".
  The calls of \<^verbatim>\<open>print\<close> are not modelled.
\<close>

subsection \<open>Python values, exceptions and the module's global names\<close>

text \<open>The three results a comparison returns: \<^verbatim>\<open>True\<close>, \<^verbatim>\<open>False\<close> and \<^verbatim>\<open>None\<close>.\<close>

datatype verdict = Match | Mismatch | Inconclusive

text \<open>The exception classes that occur. The first four are SQLAlchemy's, the others Python's.\<close>

datatype exn =
    NoSuchTableError | ProgrammingError | OperationalError | DataError
  | NameError | TypeError | IndexError | AttributeError

text \<open>
  The classes an exception is an instance of (its class and the bases of that class), after
  \<^verbatim>\<open>sqlalchemy.exc\<close> and the Python built-ins.
\<close>

fun bases :: "exn \<Rightarrow> string list" where
  "bases NoSuchTableError =
     [''NoSuchTableError'', ''InvalidRequestError'', ''SQLAlchemyError'', ''Exception'']"
| "bases ProgrammingError =
     [''ProgrammingError'', ''DatabaseError'', ''DBAPIError'', ''StatementError'',
      ''SQLAlchemyError'', ''Exception'']"
| "bases OperationalError =
     [''OperationalError'', ''DatabaseError'', ''DBAPIError'', ''StatementError'',
      ''SQLAlchemyError'', ''Exception'']"
| "bases DataError =
     [''DataError'', ''DatabaseError'', ''DBAPIError'', ''StatementError'',
      ''SQLAlchemyError'', ''Exception'']"
| "bases NameError = [''NameError'', ''Exception'']"
| "bases TypeError = [''TypeError'', ''Exception'']"
| "bases IndexError = [''IndexError'', ''LookupError'', ''Exception'']"
| "bases AttributeError = [''AttributeError'', ''Exception'']"

definition isinstance :: "exn \<Rightarrow> string \<Rightarrow> bool" where
  "isinstance ex cls = (cls \<in> set (bases ex))"

text \<open>
  The names bound at module level: the imports of lines 1 to 12 and the module's own
  \<^verbatim>\<open>def\<close> and \<^verbatim>\<open>class\<close> statements. The functions below take the list
  of bound names as their first argument \<open>g\<close>; the module as written is
  \<open>g = module_globals\<close>. Reading a name that is not bound raises \<^verbatim>\<open>NameError\<close>.
\<close>

definition module_globals :: "string list" where
  "module_globals =
     [''sys'', ''warnings'', ''time'', ''bold'', ''green'', ''red'', ''Halo'', ''sa_exc'',
      ''create_engine'', ''NoSuchTableError'', ''ProgrammingError'', ''OperationalError'',
      ''inspect'', ''sessionmaker'', ''MetaData'', ''Table'', ''make_session'', ''DBDiff'',
      ''StatusUpdate'', ''retry'']"

definition lookup_global :: "string list \<Rightarrow> string \<Rightarrow> exn + string" where
  "lookup_global g name = (if name \<in> set g then Inr name else Inl NameError)"

text \<open>\<^verbatim>\<open>except cls:\<close> reached by the exception \<open>ex\<close>: the class name is read first.\<close>

definition except_matches :: "string list \<Rightarrow> string \<Rightarrow> exn \<Rightarrow> exn + bool" where
  "except_matches g cls ex =
     (case lookup_global g cls of
        Inl err \<Rightarrow> Inl err
      | Inr c \<Rightarrow> Inr (isinstance ex c))"

text \<open>\<^verbatim>\<open>str\<close> of an integer, and \<^verbatim>\<open>repr\<close> of the values a parameter dictionary holds.\<close>

definition digit_char :: "nat \<Rightarrow> char" where
  "digit_char d = ''0123456789'' ! d"

fun str_nat :: "nat \<Rightarrow> string" where
  "str_nat n = (if n < 10 then [digit_char n] else str_nat (n div 10) @ [digit_char (n mod 10)])"

definition str_int :: "int \<Rightarrow> string" where
  "str_int i = (if i < 0 then ''-'' @ str_nat (nat (- i)) else str_nat (nat i))"

datatype pyval = PyNone | PyBool bool | PyInt int

fun repr_pyval :: "pyval \<Rightarrow> string" where
  "repr_pyval PyNone = ''None''"
| "repr_pyval (PyBool b) = (if b then ''True'' else ''False'')"
| "repr_pyval (PyInt i) = str_int i"

fun join :: "string \<Rightarrow> string list \<Rightarrow> string" where
  "join sep [] = []"
| "join sep [x] = x"
| "join sep (x # y # ys) = x @ sep @ join sep (y # ys)"

text \<open>A key is shown between single quotes (no key here holds a quote or a backslash).\<close>

definition repr_item :: "string \<times> pyval \<Rightarrow> string" where
  "repr_item kv = [CHR 0x27] @ fst kv @ [CHR 0x27] @ '': '' @ repr_pyval (snd kv)"

definition repr_dict :: "(string \<times> pyval) list \<Rightarrow> string" where
  "repr_dict d = ''{'' @ join '', '' (map repr_item d) @ ''}''"

subsection \<open>The two databases as the sessions see them\<close>

text \<open>
  A cell is an integer or SQL's \<^verbatim>\<open>NULL\<close> (\<open>None\<close>); a row maps column names to
  cells; a table has its columns, the columns of its primary-key constraint and its rows.
\<close>

type_synonym cell = "int option"
type_synonym row = "(string \<times> cell) list"

record table =
  columns :: "string list"
  constrained_columns :: "string list"
  rows :: "row list"

text \<open>
  The page query \<^verbatim>\<open>SQL_TEMPLATE_HASH\<close> (lines 69 to 80) by the pieces the code
  formats into it: \<^verbatim>\<open>last(pk)\<close> for each column of \<open>next_offset_select_expr\<close>,
  the table, \<^verbatim>\<open>pk >= :pk\<close> for each column of \<open>offset_expr\<close> joined by
  \<^verbatim>\<open>AND\<close>, the columns of \<^verbatim>\<open>ORDER BY\<close> and the \<^verbatim>\<open>LIMIT\<close>.
\<close>

record page_query =
  next_offset_select_expr :: "string list"
  from_table :: string
  offset_expr :: "string list"
  order_expr :: "string list"
  limit :: int

text \<open>The statements a session is sent, with their bound parameters.\<close>

datatype statement =
    SQL_TEMPLATE_HASH page_query "(string \<times> pyval) list"
  | GET_SEQUENCES_SQL
  | GET_SEQUENCES_VALUE_SQL string
  | COUNT_SQL string
  | CREATE_LAST_SQL

text \<open>
  A session: the tables of its database and the \<^verbatim>\<open>last_value\<close> of each of its
  sequences (the program never changes them),
  the functions and aggregates its transaction sees and the ones committed, whether a
  transaction is open, and every statement executed so far.
\<close>

record session =
  tables :: "(string \<times> table) list"
  last_values :: "(string \<times> int) list"
  routines :: "string list"
  committed_routines :: "string list"
  in_transaction :: bool
  executed :: "statement list"

datatype spinner_event =
    SpinnerStart string | SpinnerSucceed string | SpinnerFail string | SpinnerWarn string

record world =
  firstsession :: session
  secondsession :: session
  slept :: "int list"
  isatty :: bool
  spinner_log :: "spinner_event list"

definition on_first :: "(session \<Rightarrow> 'a \<times> session) \<Rightarrow> world \<Rightarrow> 'a \<times> world" where
  "on_first f w = (case f (firstsession w) of (r, s) \<Rightarrow> (r, w\<lparr>firstsession := s\<rparr>))"

definition on_second :: "(session \<Rightarrow> 'a \<times> session) \<Rightarrow> world \<Rightarrow> 'a \<times> world" where
  "on_second f w = (case f (secondsession w) of (r, s) \<Rightarrow> (r, w\<lparr>secondsession := s\<rparr>))"

definition sent :: "statement \<Rightarrow> session \<Rightarrow> session" where
  "sent stmt s = s\<lparr>in_transaction := True, executed := executed s @ [stmt]\<rparr>"

definition commit :: "session \<Rightarrow> session" where
  "commit s = s\<lparr>committed_routines := routines s, in_transaction := False\<rparr>"

definition rollback :: "session \<Rightarrow> session" where
  "rollback s = s\<lparr>routines := committed_routines s, in_transaction := False\<rparr>"

subsection \<open>\<^verbatim>\<open>retry\<close> (lines 235 to 255)\<close>

definition max_tries :: nat where
  "max_tries = 3"

definition base_timeout :: int where
  "base_timeout = 1"

definition sleep :: "int \<Rightarrow> world \<Rightarrow> world" where
  "sleep delay w = w\<lparr>slept := slept w @ [delay]\<rparr>"

text \<open>
  Lines 243 and 244, \<^verbatim>\<open>not isinstance(ex, DatabaseError) and not isinstance(ex,
  OperationalError)\<close>: the name \<^verbatim>\<open>DatabaseError\<close> is read first, and
  \<^verbatim>\<open>OperationalError\<close> only when the first test does not already decide.
\<close>

definition not_transient :: "string list \<Rightarrow> exn \<Rightarrow> exn + bool" where
  "not_transient g ex =
     (case lookup_global g ''DatabaseError'' of
        Inl err \<Rightarrow> Inl err
      | Inr c1 \<Rightarrow>
          if isinstance ex c1 then Inr False
          else (case lookup_global g ''OperationalError'' of
                  Inl err \<Rightarrow> Inl err
                | Inr c2 \<Rightarrow> Inr (\<not> isinstance ex c2)))"

function retry_loop ::
  "string list \<Rightarrow> (world \<Rightarrow> (exn + 'a) \<times> world) \<Rightarrow> nat \<Rightarrow> world \<Rightarrow> (exn + 'a) \<times> world" where
  "retry_loop g fn i w =
     (case fn w of
        (Inr v, w') \<Rightarrow> (Inr v, w')
      | (Inl ex, w') \<Rightarrow>
          (case not_transient g ex of
             Inl err \<Rightarrow> (Inl err, w')
           | Inr True \<Rightarrow> (Inl ex, w')
           | Inr False \<Rightarrow>
               if i < max_tries
               then retry_loop g fn (i + 1) (sleep (2 ^ i * base_timeout) w')
               else (Inl ex, w')))"
  by pat_completeness auto
termination
  by (relation "measure (\<lambda>(g, fn, i, w). max_tries - i)") auto

declare retry_loop.simps [simp del]

definition retry :: "string list \<Rightarrow> (world \<Rightarrow> (exn + 'a) \<times> world) \<Rightarrow> world \<Rightarrow> (exn + 'a) \<times> world" where
  "retry g fn w = retry_loop g fn 0 w"

subsection \<open>What PostgreSQL answers to the page query\<close>

text \<open>
  SQL's three-valued logic: \<open>None\<close> is "unknown". A comparison with \<^verbatim>\<open>NULL\<close>
  is unknown, and \<^verbatim>\<open>WHERE\<close> keeps a row only when its condition is true.
\<close>

definition cell_of :: "row \<Rightarrow> string \<Rightarrow> cell" where
  "cell_of r c = (case map_of r c of None \<Rightarrow> None | Some v \<Rightarrow> v)"

definition sql_ge :: "cell \<Rightarrow> cell \<Rightarrow> bool option" where
  "sql_ge a b =
     (case a of
        None \<Rightarrow> None
      | Some x \<Rightarrow> (case b of None \<Rightarrow> None | Some y \<Rightarrow> Some (y \<le> x)))"

fun sql_not :: "bool option \<Rightarrow> bool option" where
  "sql_not None = None"
| "sql_not (Some b) = Some (\<not> b)"

fun sql_and :: "bool option \<Rightarrow> bool option \<Rightarrow> bool option" where
  "sql_and (Some False) b = Some False"
| "sql_and a (Some False) = Some False"
| "sql_and (Some True) (Some True) = Some True"
| "sql_and a b = None"

fun sql_or :: "bool option \<Rightarrow> bool option \<Rightarrow> bool option" where
  "sql_or (Some True) b = Some True"
| "sql_or a (Some True) = Some True"
| "sql_or (Some False) (Some False) = Some False"
| "sql_or a b = None"

text \<open>
  Line 76: \<^verbatim>\<open>WHERE NOT :has_offset OR (pk1 >= :pk1 AND pk2 >= :pk2 ...)\<close>, for the
  row \<open>r\<close> and the bound values \<open>binds\<close>.
\<close>

definition where_clause :: "bool \<Rightarrow> (string \<times> cell) list \<Rightarrow> string list \<Rightarrow> row \<Rightarrow> bool option" where
  "where_clause has_offset binds pks r =
     sql_or (sql_not (Some has_offset))
       (foldr sql_and (map (\<lambda>pk. sql_ge (cell_of r pk) (cell_of binds pk)) pks) (Some True))"

text \<open>\<^verbatim>\<open>ORDER BY\<close> is ascending with \<^verbatim>\<open>NULL\<close> last, column after column.\<close>

definition nulls_last :: "cell \<Rightarrow> bool \<times> int" where
  "nulls_last c = (case c of None \<Rightarrow> (True, 0) | Some v \<Rightarrow> (False, v))"

definition order_key :: "string list \<Rightarrow> row \<Rightarrow> (bool \<times> int) list" where
  "order_key cols r = map (\<lambda>c. nulls_last (cell_of r c)) cols"

text \<open>Lines 75 to 78: the rows of the inner \<^verbatim>\<open>SELECT\<close>, the page.\<close>

definition page_rows :: "page_query \<Rightarrow> bool \<Rightarrow> (string \<times> cell) list \<Rightarrow> table \<Rightarrow> row list" where
  "page_rows q has_offset binds t =
     take (nat (limit q))
       (sort_key (order_key (order_expr q))
          (filter (\<lambda>r. where_clause has_offset binds (offset_expr q) r = Some True) (rows t)))"

text \<open>
  Lines 191 to 201: \<^verbatim>\<open>public.last_agg\<close> returns its second argument; the aggregate
  \<^verbatim>\<open>public.last\<close> folds it over the rows. The function is \<^verbatim>\<open>STRICT\<close> and the
  aggregate has no initial value, so a \<^verbatim>\<open>NULL\<close> input is skipped and the first
  other input becomes the state; over no rows the aggregate is \<^verbatim>\<open>NULL\<close>.
\<close>

definition last_agg :: "int \<Rightarrow> int \<Rightarrow> int" where
  "last_agg a b = b"

fun strict_aggregate :: "(int \<Rightarrow> int \<Rightarrow> int) \<Rightarrow> cell \<Rightarrow> cell list \<Rightarrow> cell" where
  "strict_aggregate sfunc state [] = state"
| "strict_aggregate sfunc state (None # xs) = strict_aggregate sfunc state xs"
| "strict_aggregate sfunc None (Some x # xs) = strict_aggregate sfunc (Some x) xs"
| "strict_aggregate sfunc (Some a) (Some x # xs) = strict_aggregate sfunc (Some (sfunc a x)) xs"

definition last_of :: "string \<Rightarrow> row list \<Rightarrow> cell" where
  "last_of pk page = strict_aggregate last_agg None (map (\<lambda>r. cell_of r pk) page)"

text \<open>
  Line 71, \<^verbatim>\<open>md5(array_agg(md5((t.*)::varchar))::varchar)\<close>: the digest is kept
  symbolic, as the rows it is taken of, in the page's order; over no rows
  \<^verbatim>\<open>array_agg\<close> and so the digest are \<^verbatim>\<open>NULL\<close>. Two digests are equal here
  exactly when the pages' contents are; no result below rests on a collision.
\<close>

datatype digest = MD5 "cell list list"

definition page_hash :: "table \<Rightarrow> row list \<Rightarrow> digest option" where
  "page_hash t page =
     (if page = [] then None else Some (MD5 (map (\<lambda>r. map (cell_of r) (columns t)) page)))"

text \<open>
  The parameters as the server types them: \<^verbatim>\<open>:has_offset\<close> is a boolean, and the
  value compared with a key column is an integer or \<^verbatim>\<open>None\<close>; anything else, or
  a parameter the dictionary lacks, makes the statement fail.
\<close>

fun bind_cells :: "(string \<times> pyval) list \<Rightarrow> string list \<Rightarrow> (string \<times> cell) list option" where
  "bind_cells params [] = Some []"
| "bind_cells params (pk # pks) =
     (case map_of params pk of
        Some PyNone \<Rightarrow> map_option (\<lambda>bs. (pk, None) # bs) (bind_cells params pks)
      | Some (PyInt i) \<Rightarrow> map_option (\<lambda>bs. (pk, Some i) # bs) (bind_cells params pks)
      | Some (PyBool b) \<Rightarrow> None
      | None \<Rightarrow> None)"

definition bind_has_offset :: "(string \<times> pyval) list \<Rightarrow> bool option" where
  "bind_has_offset params =
     (case map_of params ''has_offset'' of Some (PyBool b) \<Rightarrow> Some b | Some PyNone \<Rightarrow> None
      | Some (PyInt i) \<Rightarrow> None | None \<Rightarrow> None)"

text \<open>
  A result holds the rows the statement returned; \<^verbatim>\<open>rowcount\<close> is their number and
  \<^verbatim>\<open>fetchone()\<close> the first of them, or \<^verbatim>\<open>None\<close>. The page query aggregates
  without \<^verbatim>\<open>GROUP BY\<close>, so it returns one row whatever the page holds: the digest
  and the \<^verbatim>\<open>last\<close> of each key column.
\<close>

type_synonym result_row = "digest option \<times> cell list"

definition rowcount :: "result_row list \<Rightarrow> int" where
  "rowcount result = int (length result)"

definition fetchone :: "result_row list \<Rightarrow> result_row option" where
  "fetchone result = (case result of [] \<Rightarrow> None | r # rest \<Rightarrow> Some r)"

text \<open>
  The answer over the table \<open>t\<close>. A parameter of the wrong type and a column the table
  lacks are refused when the statement is analysed (\<^verbatim>\<open>ProgrammingError\<close>), a negative
  \<^verbatim>\<open>LIMIT\<close> when it runs (\<^verbatim>\<open>DataError\<close>).
\<close>

definition answer_page :: "page_query \<Rightarrow> (string \<times> pyval) list \<Rightarrow> table \<Rightarrow> exn + result_row list" where
  "answer_page q params t =
     (case bind_has_offset params of
        None \<Rightarrow> Inl ProgrammingError
      | Some has_offset \<Rightarrow>
          (case bind_cells params (offset_expr q) of
             None \<Rightarrow> Inl ProgrammingError
           | Some binds \<Rightarrow>
               if \<not> set (next_offset_select_expr q @ offset_expr q @ order_expr q)
                      \<subseteq> set (columns t)
               then Inl ProgrammingError
               else if limit q < 0 then Inl DataError
               else
                 (let page = page_rows q has_offset binds t in
                  Inr [(page_hash t page,
                        map (\<lambda>pk. last_of pk page) (next_offset_select_expr q))])))"

text \<open>
  \<^verbatim>\<open>session.execute(SQL_TEMPLATE_HASH, offsets)\<close>: the table and the aggregate
  \<^verbatim>\<open>last\<close> must be there.
\<close>

definition execute_page ::
  "page_query \<Rightarrow> (string \<times> pyval) list \<Rightarrow> session \<Rightarrow> (exn + result_row list) \<times> session" where
  "execute_page q params s =
     (let s' = sent (SQL_TEMPLATE_HASH q params) s in
      case map_of (tables s) (from_table q) of
        None \<Rightarrow> (Inl ProgrammingError, s')
      | Some t \<Rightarrow>
          if ''public.last'' \<notin> set (routines s) then (Inl ProgrammingError, s')
          else (answer_page q params t, s'))"

subsection \<open>\<^verbatim>\<open>DBDiff.diff_table_data\<close> (lines 38 to 113)\<close>

text \<open>
  Of \<^verbatim>\<open>self\<close>, the two options; the sessions, engines and inspectors are the world's.
\<close>

record config =
  chunk_size :: int
  count_only :: bool

text \<open>
  \<^verbatim>\<open>Table(tablename, meta, autoload=True)\<close> and
  \<^verbatim>\<open>inspector.get_pk_constraint(tablename)['constrained_columns']\<close> read the
  catalogue through the engine, and raise \<^verbatim>\<open>NoSuchTableError\<close> for a table that is
  not there. \<^verbatim>\<open>query.count()\<close> is a statement of the session.
\<close>

definition Table :: "string \<Rightarrow> session \<Rightarrow> exn + table" where
  "Table tablename s =
     (case map_of (tables s) tablename of None \<Rightarrow> Inl NoSuchTableError | Some t \<Rightarrow> Inr t)"

definition get_pk_constraint :: "string \<Rightarrow> session \<Rightarrow> exn + string list" where
  "get_pk_constraint tablename s =
     (case map_of (tables s) tablename of
        None \<Rightarrow> Inl NoSuchTableError
      | Some t \<Rightarrow> Inr (constrained_columns t))"

definition query_count :: "string \<Rightarrow> session \<Rightarrow> (exn + int) \<times> session" where
  "query_count tablename s =
     (let s' = sent (COUNT_SQL tablename) s in
      case map_of (tables s) tablename of
        None \<Rightarrow> (Inl ProgrammingError, s')
      | Some t \<Rightarrow> (Inr (int (length (rows t))), s'))"

text \<open>Lines 41 to 53, the body of the \<^verbatim>\<open>if self.count_only is True\<close>.\<close>

definition compare_counts :: "string \<Rightarrow> world \<Rightarrow> (exn + verdict \<times> string) \<times> world" where
  "compare_counts tablename w =
     (case Table tablename (firstsession w) of
        Inl e \<Rightarrow> (Inl e, w)
      | Inr firsttable \<Rightarrow>
     (case Table tablename (secondsession w) of
        Inl e \<Rightarrow> (Inl e, w)
      | Inr secondtable \<Rightarrow>
     (case on_first (query_count tablename) w of
        (Inl e, w1) \<Rightarrow> (Inl e, w1)
      | (Inr first_table_count, w1) \<Rightarrow>
     (case on_second (query_count tablename) w1 of
        (Inl e, w2) \<Rightarrow> (Inl e, w2)
      | (Inr second_table_count, w2) \<Rightarrow>
          if first_table_count \<noteq> second_table_count then
            (case on_second (query_count tablename) w2 of
               (Inl e, w3) \<Rightarrow> (Inl e, w3)
             | (Inr counted_again, w3) \<Rightarrow>
                 (Inr (Mismatch, ''counts are different '' @ str_int first_table_count
                                   @ '' != '' @ str_int counted_again), w3))
          else if first_table_count = 0 then (Inr (Inconclusive, ''tables are empty''), w2)
          else (Inr (Match, ''Counts are the same''), w2)))))"

text \<open>Lines 39 to 55: the \<^verbatim>\<open>try\<close> around it, with its \<^verbatim>\<open>except NoSuchTableError\<close>.\<close>

definition try_compare_counts ::
  "string list \<Rightarrow> string \<Rightarrow> world \<Rightarrow> (exn + verdict \<times> string) \<times> world" where
  "try_compare_counts g tablename w =
     (case compare_counts tablename w of
        (Inr r, w') \<Rightarrow> (Inr r, w')
      | (Inl ex, w') \<Rightarrow>
          (case except_matches g ''NoSuchTableError'' ex of
             Inl err \<Rightarrow> (Inl err, w')
           | Inr True \<Rightarrow> (Inr (Mismatch, ''table is missing''), w')
           | Inr False \<Rightarrow> (Inl ex, w')))"

text \<open>Line 84, \<^verbatim>\<open>{pk: None for pk in pks}\<close>, and lines 111 and 112.\<close>

definition initial_offsets :: "string list \<Rightarrow> (string \<times> pyval) list" where
  "initial_offsets pks = foldl (\<lambda>d pk. AList.update pk PyNone d) [] pks"

definition of_cell :: "cell \<Rightarrow> pyval" where
  "of_cell c = (case c of None \<Rightarrow> PyNone | Some i \<Rightarrow> PyInt i)"

fun assign_offsets ::
  "string list \<Rightarrow> cell list \<Rightarrow> (string \<times> pyval) list \<Rightarrow> exn + (string \<times> pyval) list" where
  "assign_offsets [] firstpks offsets = Inr offsets"
| "assign_offsets (pk # pks) [] offsets = Inl IndexError"
| "assign_offsets (pk # pks) (v # firstpks) offsets =
     assign_offsets pks firstpks (AList.update pk (of_cell v) offsets)"

text \<open>
  Lines 86 to 113, the \<^verbatim>\<open>while not done\<close> with the \<^verbatim>\<open>return\<close> that follows it.
  The loop's variables are \<open>done\<close>, \<open>position\<close> and \<open>offsets\<close>; no statement of
  the body assigns \<open>done\<close>.
\<close>

partial_function (option) paging_loop ::
  "string list \<Rightarrow> config \<Rightarrow> page_query \<Rightarrow> string list \<Rightarrow> bool \<Rightarrow> int \<Rightarrow> (string \<times> pyval) list
     \<Rightarrow> world \<Rightarrow> ((exn + verdict \<times> string) \<times> world) option" where
  "paging_loop g self q pks done position offsets0 w =
     (if done then Some (Inr (Match, ''data is identical.''), w)
      else
       (let offsets = AList.update ''has_offset'' (PyBool (position > 0)) offsets0 in
        case retry g (on_first (execute_page q offsets)) w of
          (Inl e, w1) \<Rightarrow> Some (Inl e, w1)
        | (Inr firstresult, w1) \<Rightarrow>
       (case retry g (on_second (execute_page q offsets)) w1 of
          (Inl e, w2) \<Rightarrow> Some (Inl e, w2)
        | (Inr secondresult, w2) \<Rightarrow>
            if rowcount firstresult \<noteq> rowcount secondresult then
              Some (Inr (Mismatch, ''row count mismatch at row '' @ str_int position
                                     @ ''; offsets: '' @ repr_dict offsets), w2)
            else
           (case fetchone firstresult of
              None \<Rightarrow> Some (Inl TypeError, w2)
            | Some (firsthash, firstpks) \<Rightarrow>
           (case fetchone secondresult of
              None \<Rightarrow> Some (Inl TypeError, w2)
            | Some (secondhash, secondpks) \<Rightarrow>
                if firsthash \<noteq> secondhash then
                  Some (Inr (Mismatch, ''data hash are different at row '' @ str_int position
                                         @ ''; offsets: '' @ repr_dict offsets), w2)
                else if firstpks \<noteq> secondpks then
                  Some (Inr (Mismatch, ''data pks are different  at row '' @ str_int position
                                         @ '';offsets: '' @ repr_dict offsets), w2)
                else
                 (case assign_offsets pks firstpks offsets of
                    Inl e \<Rightarrow> Some (Inl e, w2)
                  | Inr offsets' \<Rightarrow>
                      paging_loop g self q pks done (position + chunk_size self) offsets' w2))))))"

text \<open>Lines 63 to 80: the page query for the table and its key columns.\<close>

definition template_hash :: "config \<Rightarrow> string \<Rightarrow> string list \<Rightarrow> page_query" where
  "template_hash self tablename pks =
     \<lparr>next_offset_select_expr = pks, from_table = tablename, offset_expr = pks,
      order_expr = pks, limit = chunk_size self\<rparr>"

definition diff_table_data ::
  "string list \<Rightarrow> config \<Rightarrow> string \<Rightarrow> world \<Rightarrow> ((exn + verdict \<times> string) \<times> world) option" where
  "diff_table_data g self tablename w =
     (if count_only self then Some (try_compare_counts g tablename w)
      else
       (case get_pk_constraint tablename (firstsession w) of
          Inl e \<Rightarrow> Some (Inl e, w)
        | Inr pks \<Rightarrow>
            if pks = [] then
              Some (Inr (Inconclusive,
                         ''no primary key(s) on this table. Comparison is not possible.''), w)
            else
              paging_loop g self (template_hash self tablename pks)
                pks False 0 (initial_offsets pks) w))"

subsection \<open>\<^verbatim>\<open>DBDiff.get_all_sequences\<close> and \<^verbatim>\<open>DBDiff.diff_sequence\<close> (lines 115 to 144)\<close>





subsection \<open>\<^verbatim>\<open>StatusUpdate\<close> (lines 209 to 232)\<close>

text \<open>
  The constructor sets the attribute \<^verbatim>\<open>spinner\<close> only when standard output is a
  terminal; the model of the object is whether it has the attribute. \<^verbatim>\<open>complete\<close>
  reads \<^verbatim>\<open>self.spinner\<close> first, which raises \<^verbatim>\<open>AttributeError\<close> on an object
  without it.
\<close>

definition StatusUpdate :: "string \<Rightarrow> world \<Rightarrow> bool \<times> world" where
  "StatusUpdate title w =
     (if isatty w then (True, w\<lparr>spinner_log := spinner_log w @ [SpinnerStart title]\<rparr>)
      else (False, w))"

fun shown :: "verdict \<Rightarrow> string \<Rightarrow> spinner_event" where
  "shown Match message = SpinnerSucceed message"
| "shown Mismatch message = SpinnerFail message"
| "shown Inconclusive message = SpinnerWarn message"

definition complete :: "bool \<Rightarrow> verdict \<Rightarrow> string \<Rightarrow> world \<Rightarrow> (exn + unit) \<times> world" where
  "complete has_spinner success message w =
     (if has_spinner then
        (Inr (), w\<lparr>spinner_log := spinner_log w @ [shown success message]\<rparr>)
      else (Inl AttributeError, w))"

fun index :: "string list \<Rightarrow> string \<Rightarrow> nat" where
  "index [] x = 0"
| "index (y # ys) x = (if y = x then 0 else index ys x + 1)"

definition progress :: "string \<Rightarrow> string list \<Rightarrow> string \<Rightarrow> string" where
  "progress kind names name =
     ''Analysing '' @ kind @ '' '' @ name @ ''. ['' @ str_int (int (index names name) + 1)
       @ ''/'' @ str_int (int (length names)) @ '']''"

subsection \<open>\<^verbatim>\<open>DBDiff.diff_all_sequences\<close> (lines 146 to 162)\<close>



subsection \<open>\<^verbatim>\<open>DBDiff.create_aggregate_functions\<close> (lines 188 to 206)\<close>

text \<open>
  The text of \<^verbatim>\<open>stmt\<close> holds two commands. \<^verbatim>\<open>CREATE OR REPLACE FUNCTION\<close> creates
  the function or replaces it. \<^verbatim>\<open>CREATE AGGREGATE\<close>, written without
  \<^verbatim>\<open>OR REPLACE\<close>, creates the aggregate and fails (PostgreSQL's
  \<^verbatim>\<open>duplicate_function\<close>, a \<^verbatim>\<open>ProgrammingError\<close>) when an aggregate of that name
  and argument types exists already. A failing statement leaves the routines as they were.
\<close>

datatype ddl = CreateOrReplaceFunction string | CreateAggregate string string

definition stmt :: "ddl list" where
  "stmt = [CreateOrReplaceFunction ''public.last_agg'',
           CreateAggregate ''public.last'' ''public.last_agg'']"

fun run_ddl :: "ddl \<Rightarrow> string list \<Rightarrow> exn + string list" where
  "run_ddl (CreateOrReplaceFunction f) rs = Inr (List.insert f rs)"
| "run_ddl (CreateAggregate a sfunc) rs =
     (if a \<in> set rs then Inl ProgrammingError
      else if sfunc \<notin> set rs then Inl ProgrammingError
      else Inr (rs @ [a]))"

fun run_script :: "ddl list \<Rightarrow> string list \<Rightarrow> exn + string list" where
  "run_script [] rs = Inr rs"
| "run_script (d # ds) rs =
     (case run_ddl d rs of Inl e \<Rightarrow> Inl e | Inr rs' \<Rightarrow> run_script ds rs')"

definition execute_stmt :: "session \<Rightarrow> (exn + unit) \<times> session" where
  "execute_stmt s =
     (let s' = sent CREATE_LAST_SQL s in
      case run_script stmt (routines s) of
        Inl e \<Rightarrow> (Inl e, s')
      | Inr rs \<Rightarrow> (Inr (), s'\<lparr>routines := rs\<rparr>))"

definition create_aggregate_functions :: "world \<Rightarrow> (exn + unit) \<times> world" where
  "create_aggregate_functions w =
     (case on_first execute_stmt w of
        (Inl e, w1) \<Rightarrow> (Inl e, w1)
      | (Inr u1, w1) \<Rightarrow>
     (case on_second execute_stmt w1 of
        (Inl e, w2) \<Rightarrow> (Inl e, w2)
      | (Inr u2, w2) \<Rightarrow>
          (Inr (), w2\<lparr>firstsession := commit (firstsession w2),
                      secondsession := commit (secondsession w2)\<rparr>)))"

subsection \<open>\<^verbatim>\<open>DBDiff.diff_all_table_data\<close> (lines 164 to 186)\<close>

definition get_table_names :: "session \<Rightarrow> string list" where
  "get_table_names s = map fst (tables s)"

fun tables_loop ::
  "string list \<Rightarrow> config \<Rightarrow> string list \<Rightarrow> string list \<Rightarrow> int \<Rightarrow> world
     \<Rightarrow> ((exn + int) \<times> world) option" where
  "tables_loop g self names [] failures w = Some (Inr failures, w)"
| "tables_loop g self names (tbl # rest) failures w =
     (case StatusUpdate (progress ''table'' names tbl) w of
        (status_update, w1) \<Rightarrow>
     (case diff_table_data g self tbl w1 of
        None \<Rightarrow> None
      | Some (Inl e, w2) \<Rightarrow> Some (Inl e, w2)
      | Some (Inr (result, message), w2) \<Rightarrow>
     (case complete status_update result (tbl @ '' - '' @ message) w2 of
        (Inl e, w3) \<Rightarrow> Some (Inl e, w3)
      | (Inr u, w3) \<Rightarrow>
          tables_loop g self names rest
            (if result = Mismatch then failures + 1 else failures) w3)))"

definition diff_all_table_data ::
  "string list \<Rightarrow> config \<Rightarrow> world \<Rightarrow> ((exn + int) \<times> world) option" where
  "diff_all_table_data g self w =
     (case create_aggregate_functions w of
        (Inl e, w0) \<Rightarrow> Some (Inl e, w0)
      | (Inr u, w0) \<Rightarrow>
     (case tables_loop g self (sort (get_table_names (firstsession w0)))
             (sort (get_table_names (firstsession w0))) 0 w0 of
        None \<Rightarrow> None
      | Some (Inl e, w1) \<Rightarrow> Some (Inl e, w1)
      | Some (Inr failures, w1) \<Rightarrow> Some (Inr (if failures > 0 then 1 else 0), w1)))"

declare paging_loop.simps [code]

subsection \<open>Notions the statements below use\<close>

text \<open>The world one attempt of \<open>fn\<close> leaves behind.\<close>

definition attempt :: "(world \<Rightarrow> (exn + 'a) \<times> world) \<Rightarrow> world \<Rightarrow> world" where
  "attempt fn w = snd (fn w)"


text \<open>Both sessions hold the table \<open>t\<close> under the name, and both have the aggregate.\<close>

definition same_table :: "string \<Rightarrow> table \<Rightarrow> world \<Rightarrow> bool" where
  "same_table tablename t w =
     (map_of (tables (firstsession w)) tablename = Some t
      \<and> map_of (tables (secondsession w)) tablename = Some t
      \<and> ''public.last'' \<in> set (routines (firstsession w))
      \<and> ''public.last'' \<in> set (routines (secondsession w)))"




text \<open>What no comparison changes: the terminal, the tables and the sequences.\<close>

definition catalogue ::
  "world \<Rightarrow> bool \<times> (string \<times> table) list \<times> (string \<times> table) list
             \<times> (string \<times> int) list \<times> (string \<times> int) list" where
  "catalogue w =
     (isatty w, tables (firstsession w), tables (secondsession w),
      last_values (firstsession w), last_values (secondsession w))"

subsection \<open>Concrete databases\<close>

text \<open>A session that has executed nothing, and a run on a terminal that has slept and shown nothing.\<close>

definition session_of ::
  "(string \<times> table) list \<Rightarrow> (string \<times> int) list \<Rightarrow> string list \<Rightarrow> session" where
  "session_of tbls seqs rs =
     \<lparr>tables = tbls, last_values = seqs, routines = rs, committed_routines = rs,
      in_transaction = False, executed = []\<rparr>"

definition world_of :: "session \<Rightarrow> session \<Rightarrow> world" where
  "world_of s1 s2 =
     \<lparr>firstsession = s1, secondsession = s2, slept = [], isatty = True, spinner_log = []\<rparr>"

text \<open>The routines \<^verbatim>\<open>create_aggregate_functions\<close> leaves in a database.\<close>

definition installed :: "string list" where
  "installed = [''public.last_agg'', ''public.last'']"

text \<open>
  \<^verbatim>\<open>orders(id primary key, amount)\<close> with three rows; \<^verbatim>\<open>pairs(a, b)\<close> with the
  key \<^verbatim>\<open>(a, b)\<close> and two rows; \<^verbatim>\<open>audit_log(id primary key)\<close> without rows;
  \<^verbatim>\<open>events(payload)\<close> without a primary key, with one row.
\<close>

definition order_row :: "int \<Rightarrow> int \<Rightarrow> row" where
  "order_row i a = [(''id'', Some i), (''amount'', Some a)]"

definition orders :: table where
  "orders = \<lparr>columns = [''id'', ''amount''], constrained_columns = [''id''],
              rows = [order_row 1 10, order_row 2 20, order_row 3 30]\<rparr>"

definition pair_row :: "int \<Rightarrow> int \<Rightarrow> row" where
  "pair_row a b = [(''a'', Some a), (''b'', Some b)]"

definition pairs :: table where
  "pairs = \<lparr>columns = [''a'', ''b''], constrained_columns = [''a'', ''b''],
             rows = [pair_row 1 2, pair_row 2 1]\<rparr>"

definition audit_log :: table where
  "audit_log = \<lparr>columns = [''id''], constrained_columns = [''id''], rows = []\<rparr>"

definition events :: table where
  "events = \<lparr>columns = [''payload''], constrained_columns = [],
              rows = [[(''payload'', Some 7)]]\<rparr>"

text \<open>Two databases with the same \<^verbatim>\<open>orders\<close>, the aggregate installed.\<close>

definition identical_world :: world where
  "identical_world =
     world_of (session_of [(''orders'', orders)] [] installed)
       (session_of [(''orders'', orders)] [] installed)"

text \<open>Two databases with the same empty \<^verbatim>\<open>audit_log\<close>.\<close>

definition empty_world :: world where
  "empty_world =
     world_of (session_of [(''audit_log'', audit_log)] [] installed)
       (session_of [(''audit_log'', audit_log)] [] installed)"

text \<open>\<^verbatim>\<open>orders\<close> on one database only.\<close>

definition missing_on_second :: world where
  "missing_on_second =
     world_of (session_of [(''orders'', orders)] [] installed) (session_of [] [] installed)"

definition missing_on_first :: world where
  "missing_on_first =
     world_of (session_of [] [] installed) (session_of [(''orders'', orders)] [] installed)"


text \<open>
  Two databases on which nothing is installed yet: \<^verbatim>\<open>events\<close> on both,
  \<^verbatim>\<open>orders\<close> on the first only.
\<close>

definition two_tables :: world where
  "two_tables =
     world_of (session_of [(''orders'', orders), (''events'', events)] [] [])
       (session_of [(''events'', events)] [] [])"




text \<open>A query that the server refuses with an operational error whenever it is sent.\<close>

definition unreachable_server :: "world \<Rightarrow> (exn + int) \<times> world" where
  "unreachable_server w = on_first (\<lambda>s. (Inl OperationalError, sent GET_SEQUENCES_SQL s)) w"

section \<open>Properties\<close>

subsection \<open>Sessions and \<^verbatim>\<open>retry\<close>\<close>

lemma sent_keeps [simp]:
  "tables (sent q s) = tables s"
  "last_values (sent q s) = last_values s"
  "routines (sent q s) = routines s"
  "committed_routines (sent q s) = committed_routines s"
  "in_transaction (sent q s)"
  "executed (sent q s) = executed s @ [q]"
  by (simp_all add: sent_def)

lemma rollback_keeps [simp]:
  "tables (rollback s) = tables s"
  "last_values (rollback s) = last_values s"
  "executed (rollback s) = executed s"
  "\<not> in_transaction (rollback s)"
  "routines (rollback s) = committed_routines (rollback s)"
  by (simp_all add: rollback_def)

lemma commit_keeps [simp]:
  "tables (commit s) = tables s"
  "last_values (commit s) = last_values s"
  "executed (commit s) = executed s"
  "routines (commit s) = routines s"
  by (simp_all add: commit_def)

lemma sleep_keeps [simp]:
  "firstsession (sleep d w) = firstsession w"
  "secondsession (sleep d w) = secondsession w"
  "isatty (sleep d w) = isatty w"
  "spinner_log (sleep d w) = spinner_log w"
  "slept (sleep d w) = slept w @ [d]"
  by (simp_all add: sleep_def)

lemma catalogue_keeps [simp]:
  "catalogue (sleep d w) = catalogue w"
  "catalogue (w\<lparr>spinner_log := l\<rparr>) = catalogue w"
  by (simp_all add: catalogue_def)

lemma retry_returns:
  "fn w = (Inr v, w') \<Longrightarrow> retry g fn w = (Inr v, w')"
  unfolding retry_def by (subst retry_loop.simps) simp

lemma DatabaseError_unbound: "''DatabaseError'' \<notin> set module_globals"
  by (simp add: module_globals_def)

lemma not_transient_unbound:
  "''DatabaseError'' \<notin> set g \<Longrightarrow> not_transient g ex = Inl NameError"
  by (simp add: not_transient_def lookup_global_def)

lemma retry_raises_NameError:
  "fn w = (Inl ex, w') \<Longrightarrow> retry module_globals fn w = (Inl NameError, w')"
  unfolding retry_def
  by (subst retry_loop.simps) (simp add: not_transient_unbound [OF DatabaseError_unbound])

lemma not_transient_bound:
  "''DatabaseError'' \<in> set g \<Longrightarrow> not_transient g OperationalError = Inr False"
  "''DatabaseError'' \<in> set g \<Longrightarrow> not_transient g ProgrammingError = Inr False"
  by (simp_all add: not_transient_def lookup_global_def isinstance_def)

lemma retry_loop_failed:
  "fn w = (Inl ex, w') \<Longrightarrow> not_transient g ex = Inr False \<Longrightarrow>
     retry_loop g fn i w =
       (if i < max_tries then retry_loop g fn (Suc i) (sleep (2 ^ i * base_timeout) w')
        else (Inl ex, w'))"
  by (subst retry_loop.simps) simp

text \<open>
  The loop of \<^verbatim>\<open>retry\<close> on an operation that fails with a retried exception along
  the whole run (\<open>I\<close> holds of the worlds it meets, \<open>nxt\<close> is what an attempt does to
  the world): four attempts, sleeps of 1, 2 and 4 seconds between them, and the
  exception is raised.
\<close>

lemma retry_exhausted:
  assumes nt: "not_transient g ex = Inr False"
    and fails: "\<And>w. I w \<Longrightarrow> fn w = (Inl ex, nxt w) \<and> I (nxt w)"
    and sleeps: "\<And>d w. I w \<Longrightarrow> I (sleep d w)"
    and start: "I w"
  shows "retry g fn w = (Inl ex, nxt (sleep 4 (nxt (sleep 2 (nxt (sleep 1 (nxt w)))))))"
proof -
  have step: "retry_loop g fn i w =
       (if i < max_tries then retry_loop g fn (Suc i) (sleep (2 ^ i * base_timeout) (nxt w))
        else (Inl ex, nxt w))" if "I w" for i w
    using fails [OF that] nt by (simp add: retry_loop_failed)
  have i1: "I (sleep 1 (nxt w))"
    using fails [OF start] sleeps by blast
  have i2: "I (sleep 2 (nxt (sleep 1 (nxt w))))"
    using fails [OF i1] sleeps by blast
  have i3: "I (sleep 4 (nxt (sleep 2 (nxt (sleep 1 (nxt w))))))"
    using fails [OF i2] sleeps by blast
  show ?thesis
    unfolding retry_def
    by (simp add: step [OF start] step [OF i1] step [OF i2] step [OF i3]
          max_tries_def base_timeout_def)
qed

text \<open>
  With \<^verbatim>\<open>DatabaseError\<close> a bound name, \<^verbatim>\<open>retry\<close> does what the spec says of an
  operation that raises an operational error every time.
\<close>

lemma retry_with_DatabaseError_bound:
  assumes g: "''DatabaseError'' \<in> set g"
    and fails: "\<And>w. fst (fn w) = Inl OperationalError"
  shows "retry g fn w =
     (Inl OperationalError,
      attempt fn (sleep 4 (attempt fn (sleep 2 (attempt fn (sleep 1 (attempt fn w)))))))"
proof (rule retry_exhausted [where I = "\<lambda>w. True"])
  show "not_transient g OperationalError = Inr False"
    using g by (rule not_transient_bound)
  show "fn w = (Inl OperationalError, attempt fn w) \<and> True" for w
    using fails [of w] by (cases "fn w") (simp add: attempt_def)
qed simp_all



text \<open>
  Claim C2. The spec: an operation that always raises a transient error is attempted
  four times, with delays of 1, 2 and 4 seconds, and then its error propagates. The module
  never imports \<^verbatim>\<open>DatabaseError\<close>, so the handler of line 242 raises
  \<^verbatim>\<open>NameError\<close> when it tests the exception on line 243: whatever the operation
  raised, \<^verbatim>\<open>retry\<close> has called it once, has not slept, and raises
  \<^verbatim>\<open>NameError\<close> in its place. The second half is the query that always meets an
  operational error: one statement sent, nothing slept, \<^verbatim>\<open>NameError\<close>.
\<close>

theorem retry_as_written:
  "retry module_globals fn w =
     (case fn w of (Inr v, w') \<Rightarrow> (Inr v, w') | (Inl ex, w') \<Rightarrow> (Inl NameError, w'))
   \<and> retry module_globals unreachable_server (world_of s1 s2)
       = (Inl NameError, (world_of s1 s2)\<lparr>firstsession := sent GET_SEQUENCES_SQL s1\<rparr>)"
proof
  show "retry module_globals fn w =
     (case fn w of (Inr v, w') \<Rightarrow> (Inr v, w') | (Inl ex, w') \<Rightarrow> (Inl NameError, w'))"
    by (cases "fn w" rule: prod.exhaust; cases "fst (fn w)";
        simp add: retry_returns retry_raises_NameError)
  show "retry module_globals unreachable_server (world_of s1 s2)
       = (Inl NameError, (world_of s1 s2)\<lparr>firstsession := sent GET_SEQUENCES_SQL s1\<rparr>)"
    by (rule retry_raises_NameError) (simp add: unreachable_server_def on_first_def world_of_def)
qed

subsection \<open>Sequences\<close>









subsection \<open>The page query\<close>

text \<open>
  Claim C3. The spec: after the first round a page holds at most \<open>chunk_size\<close> rows
  whose key is strictly greater than the cursor in the key's lexicographic order, so no
  row is selected twice. Line 67 writes \<^verbatim>\<open>pk >= :pk\<close> for every key column and joins
  the comparisons by \<^verbatim>\<open>AND\<close>. So the row the cursor was taken from satisfies the
  condition again: on \<^verbatim>\<open>orders\<close> with pages of two rows the first page is the rows
  1 and 2, the cursor is 2, and the second page is the rows 2 and 3. With two key columns
  the comparison is not lexicographic either: on \<^verbatim>\<open>pairs\<close> with pages of one row the
  first page is the row (1, 2), and the second page is that row again, while the row
  (2, 1), which is greater in key order, is in no page.
\<close>

theorem page_query_selects_cursor_row_again:
  "where_clause True [(pk, Some v)] [pk] ((pk, Some v) # r) = Some True
   \<and> page_rows (template_hash \<lparr>chunk_size = 2, count_only = False\<rparr> ''orders'' [''id''])
        False [(''id'', None)] orders = [order_row 1 10, order_row 2 20]
   \<and> last_of ''id'' [order_row 1 10, order_row 2 20] = Some 2
   \<and> page_rows (template_hash \<lparr>chunk_size = 2, count_only = False\<rparr> ''orders'' [''id''])
        True [(''id'', Some 2)] orders = [order_row 2 20, order_row 3 30]
   \<and> page_rows (template_hash \<lparr>chunk_size = 1, count_only = False\<rparr> ''pairs'' [''a'', ''b''])
        False [(''a'', None), (''b'', None)] pairs = [pair_row 1 2]
   \<and> page_rows (template_hash \<lparr>chunk_size = 1, count_only = False\<rparr> ''pairs'' [''a'', ''b''])
        True [(''a'', Some 1), (''b'', Some 2)] pairs = [pair_row 1 2]
   \<and> order_key [''a'', ''b''] (pair_row 1 2) < order_key [''a'', ''b''] (pair_row 2 1)"
proof (intro conjI)
  show "where_clause True [(pk, Some v)] [pk] ((pk, Some v) # r) = Some True"
    by (simp add: where_clause_def cell_of_def sql_ge_def)
qed code_simp+

subsection \<open>The paging loop\<close>

lemma bind_cells_bound:
  "\<forall>pk\<in>set pks. \<exists>c. map_of params pk = Some (of_cell c) \<Longrightarrow>
     \<exists>binds. bind_cells params pks = Some binds"
proof (induction pks)
  case Nil
  then show ?case by simp
next
  case (Cons pk pks)
  from Cons.prems obtain c where c: "map_of params pk = Some (of_cell c)"
    by auto
  from Cons obtain binds where "bind_cells params pks = Some binds"
    by auto
  with c show ?case
    by (cases c) (simp_all add: of_cell_def)
qed

lemma assign_offsets_bound:
  "length firstpks = length pks \<Longrightarrow>
   \<forall>k\<in>ks. \<exists>c. map_of offsets k = Some (of_cell c) \<Longrightarrow>
     \<exists>offsets'. assign_offsets pks firstpks offsets = Inr offsets'
        \<and> (\<forall>k\<in>set pks \<union> ks. \<exists>c. map_of offsets' k = Some (of_cell c))"
proof (induction pks firstpks offsets arbitrary: ks rule: assign_offsets.induct)
  case (1 firstpks offsets)
  then show ?case by simp
next
  case (2 pk pks offsets)
  then show ?case by simp
next
  case (3 pk pks v firstpks offsets)
  have "\<forall>k\<in>insert pk ks. \<exists>c. map_of (AList.update pk (of_cell v) offsets) k = Some (of_cell c)"
    using "3.prems"(2) by (auto simp add: update_conv')
  with "3.IH" [of "insert pk ks"] "3.prems"(1)
  obtain offsets' where
    "assign_offsets pks firstpks (AList.update pk (of_cell v) offsets) = Inr offsets'"
    and "\<forall>k\<in>set pks \<union> insert pk ks. \<exists>c. map_of offsets' k = Some (of_cell c)"
    by auto
  then show ?case
    by auto
qed

lemma bind_has_offset_update [simp]:
  "bind_has_offset (AList.update ''has_offset'' (PyBool b) offsets) = Some b"
  by (simp add: bind_has_offset_def update_conv')

text \<open>The page query answers with one row, whatever the page holds.\<close>

lemma answer_page_one_row:
  assumes "\<forall>pk\<in>set pks. \<exists>c. map_of params pk = Some (of_cell c)"
    and "bind_has_offset params = Some b"
    and "set pks \<subseteq> set (columns t)" and "0 \<le> chunk_size self"
  shows "\<exists>h lasts. answer_page (template_hash self tablename pks) params t = Inr [(h, lasts)]
           \<and> length lasts = length pks"
proof -
  from bind_cells_bound [OF assms(1)] obtain binds where "bind_cells params pks = Some binds" ..
  with assms(2-4) show ?thesis
    by (simp add: answer_page_def template_hash_def Let_def)
qed

text \<open>
  One round on two sessions that hold the same table: both answers are the same row, and
  the next round starts from two sessions that hold the same table.
\<close>

lemma round_on_same_table:
  fixes position :: int
  assumes same: "same_table tablename t w"
    and bound: "\<forall>pk\<in>set pks. \<exists>c. map_of offsets0 pk = Some (of_cell c)"
    and cols: "set pks \<subseteq> set (columns t)" and lim: "0 \<le> chunk_size self"
    and nho: "''has_offset'' \<notin> set pks"
    and q_def: "q = template_hash self tablename pks"
    and offsets_def: "offsets = AList.update ''has_offset'' (PyBool (position > 0)) offsets0"
  shows "\<exists>h lasts w1 w2 offsets'.
           retry g (on_first (execute_page q offsets)) w = (Inr [(h, lasts)], w1)
         \<and> retry g (on_second (execute_page q offsets)) w1 = (Inr [(h, lasts)], w2)
         \<and> assign_offsets pks lasts offsets = Inr offsets'
         \<and> same_table tablename t w2
         \<and> (\<forall>pk\<in>set pks. \<exists>c. map_of offsets' pk = Some (of_cell c))"
proof -
  have bound': "\<forall>pk\<in>set pks. \<exists>c. map_of offsets pk = Some (of_cell c)"
    using bound nho by (auto simp add: offsets_def update_conv')
  have "bind_has_offset offsets = Some (position > 0)"
    by (simp add: offsets_def)
  from answer_page_one_row [OF bound' this cols lim, of tablename]
  obtain h lasts where ans: "answer_page q offsets t = Inr [(h, lasts)]"
    and len: "length lasts = length pks"
    by (auto simp add: q_def)
  let ?w1 = "w\<lparr>firstsession := sent (SQL_TEMPLATE_HASH q offsets) (firstsession w)\<rparr>"
  let ?w2 = "?w1\<lparr>secondsession := sent (SQL_TEMPLATE_HASH q offsets) (secondsession w)\<rparr>"
  have tbl: "from_table q = tablename"
    by (simp add: q_def template_hash_def)
  have r1: "retry g (on_first (execute_page q offsets)) w = (Inr [(h, lasts)], ?w1)"
    using same
    by (intro retry_returns) (simp add: on_first_def execute_page_def tbl ans same_table_def)
  have r2: "retry g (on_second (execute_page q offsets)) ?w1 = (Inr [(h, lasts)], ?w2)"
    using same
    by (intro retry_returns) (simp add: on_second_def execute_page_def tbl ans same_table_def)
  from assign_offsets_bound [OF len, of "{}" offsets]
  obtain offsets' where a: "assign_offsets pks lasts offsets = Inr offsets'"
    and b: "\<forall>pk\<in>set pks. \<exists>c. map_of offsets' pk = Some (of_cell c)"
    by auto
  have "same_table tablename t ?w2"
    using same by (simp add: same_table_def)
  with r1 r2 a b show ?thesis by blast
qed

text \<open>
  On two sessions that hold the same table the loop does not return: every round finds
  nothing to report and starts the next one, since nothing sets \<open>done\<close>.
\<close>

lemma paging_loop_on_same_table:
  assumes same: "same_table tablename t w"
    and bound: "\<forall>pk\<in>set pks. \<exists>c. map_of offsets pk = Some (of_cell c)"
    and cols: "set pks \<subseteq> set (columns t)" and lim: "0 \<le> chunk_size self"
    and nho: "''has_offset'' \<notin> set pks"
  shows "paging_loop g self (template_hash self tablename pks) pks False position offsets w = None"
proof (rule ccontr)
  define Inv where "Inv = (\<lambda>(self::config) (q::page_query) pks finished offsets w.
      \<not> finished \<and> q = template_hash self tablename pks \<and> same_table tablename t w
      \<and> (\<forall>pk\<in>set pks. \<exists>c. map_of offsets pk = Some (of_cell c))
      \<and> set pks \<subseteq> set (columns t) \<and> 0 \<le> chunk_size self \<and> ''has_offset'' \<notin> set pks)"
  assume "paging_loop g self (template_hash self tablename pks) pks False position offsets w
            \<noteq> None"
  then obtain y where
    y: "paging_loop g self (template_hash self tablename pks) pks False position offsets w
          = Some y"
    by auto
  have "\<not> Inv self (template_hash self tablename pks) pks False offsets w"
  proof (rule paging_loop.raw_induct
      [where P = "\<lambda>g self q pks finished position offsets w y.
                    \<not> Inv self q pks finished offsets w",
       OF _ y], goal_cases)
    case (1 loop g self q pks finished position offsets w y)
    show ?case
    proof
      assume inv: "Inv self q pks finished offsets w"
      then have nf: "\<not> finished"
        by (simp add: Inv_def)
      from inv have "\<exists>h lasts w1 w2 offsets'.
           retry g (on_first (execute_page q
               (AList.update ''has_offset'' (PyBool (position > 0)) offsets))) w
             = (Inr [(h, lasts)], w1)
         \<and> retry g (on_second (execute_page q
               (AList.update ''has_offset'' (PyBool (position > 0)) offsets))) w1
             = (Inr [(h, lasts)], w2)
         \<and> assign_offsets pks lasts
               (AList.update ''has_offset'' (PyBool (position > 0)) offsets) = Inr offsets'
         \<and> same_table tablename t w2
         \<and> (\<forall>pk\<in>set pks. \<exists>c. map_of offsets' pk = Some (of_cell c))"
        by (intro round_on_same_table [where self = self and ?offsets0.0 = offsets])
           (simp_all add: Inv_def)
      then obtain h lasts w1 w2 offsets' where
        r1: "retry g (on_first (execute_page q
               (AList.update ''has_offset'' (PyBool (position > 0)) offsets))) w
             = (Inr [(h, lasts)], w1)"
        and r2: "retry g (on_second (execute_page q
               (AList.update ''has_offset'' (PyBool (position > 0)) offsets))) w1
             = (Inr [(h, lasts)], w2)"
        and a: "assign_offsets pks lasts
               (AList.update ''has_offset'' (PyBool (position > 0)) offsets) = Inr offsets'"
        and al: "same_table tablename t w2"
        and b: "\<forall>pk\<in>set pks. \<exists>c. map_of offsets' pk = Some (of_cell c)"
        by blast
      from "1"(2) nf
      have "loop g self q pks finished (position + chunk_size self) offsets' w2 = Some y"
        by (simp add: Let_def r1 r2 a rowcount_def fetchone_def)
      from "1"(1) [OF this] have "\<not> Inv self q pks finished offsets' w2" .
      moreover from inv al b have "Inv self q pks finished offsets' w2"
        by (simp add: Inv_def)
      ultimately show False by contradiction
    qed
  qed
  with assms show False
    by (simp add: Inv_def)
qed

text \<open>Whatever the databases hold, the loop returns neither \<open>Match\<close> nor \<open>Inconclusive\<close>.\<close>

lemma paging_loop_never_match:
  assumes "paging_loop g self q pks False position offsets w = Some y"
  shows "fst y \<noteq> Inr (Match, m) \<and> fst y \<noteq> Inr (Inconclusive, m)"
proof -
  have "\<not> finished \<longrightarrow> (\<forall>m. fst y \<noteq> Inr (Match, m) \<and> fst y \<noteq> Inr (Inconclusive, m))"
    if "paging_loop g self q pks finished position offsets w = Some y" for finished
  proof (rule paging_loop.raw_induct
      [where P = "\<lambda>g self q pks done position offsets w y.
          \<not> done \<longrightarrow> (\<forall>m. fst y \<noteq> Inr (Match, m) \<and> fst y \<noteq> Inr (Inconclusive, m))",
       OF _ that],
      goal_cases)
    case (1 loop g self q pks finished position offsets w y)
    then show ?case
      by (auto simp add: Let_def split: prod.splits sum.splits if_splits option.splits)
  qed
  from this [OF assms] show ?thesis by simp
qed

text \<open>
  Claim C1. The spec: on two identical tables of \<open>N\<close> rows with a primary key, the
  hash mode runs its paging rounds, ends on an empty page and returns \<open>Match\<close> with
  \<^verbatim>\<open>data is identical.\<close>. The loop of line 86 runs \<^verbatim>\<open>while not done\<close>, and no
  statement assigns \<^verbatim>\<open>done\<close>; a page query aggregates, so it answers with one row
  also when the page is empty. In hash mode \<^verbatim>\<open>diff_table_data\<close> therefore returns
  \<open>Match\<close> for no table and no databases at all, and on the two identical tables
  \<^verbatim>\<open>orders\<close> of three rows, with pages of two rows, it does not return.
\<close>

theorem diff_table_data_never_reports_identical:
  "diff_table_data g (self\<lparr>count_only := False\<rparr>) tablename w \<noteq> Some (Inr (Match, m), w')
   \<and> diff_table_data module_globals \<lparr>chunk_size = 2, count_only = False\<rparr> ''orders''
       identical_world = None"
proof
  show "diff_table_data g (self\<lparr>count_only := False\<rparr>) tablename w \<noteq> Some (Inr (Match, m), w')"
    by (auto simp add: diff_table_data_def split: sum.splits if_splits
          dest: paging_loop_never_match)
  have pk: "get_pk_constraint ''orders'' (firstsession identical_world) = Inr [''id'']"
    by (simp add: get_pk_constraint_def identical_world_def world_of_def session_of_def
          orders_def)
  have "paging_loop module_globals \<lparr>chunk_size = 2, count_only = False\<rparr>
          (template_hash \<lparr>chunk_size = 2, count_only = False\<rparr> ''orders'' [''id'']) [''id'']
          False 0 (initial_offsets [''id'']) identical_world = None"
  proof (rule paging_loop_on_same_table [where t = orders])
    show "same_table ''orders'' orders identical_world"
      by (simp add: same_table_def identical_world_def world_of_def session_of_def
            installed_def)
    show "\<forall>pk\<in>set [''id'']. \<exists>c. map_of (initial_offsets [''id'']) pk = Some (of_cell c)"
      by (simp add: initial_offsets_def of_cell_def exI [of _ None])
  qed (simp_all add: orders_def)
  with pk show "diff_table_data module_globals \<lparr>chunk_size = 2, count_only = False\<rparr> ''orders''
       identical_world = None"
    by (simp add: diff_table_data_def)
qed

subsection \<open>Empty tables, missing tables, tables without a primary key\<close>

text \<open>
  Claim C6, as the code has it: in count-only mode a table that has no rows on either
  database gets \<open>Inconclusive\<close> with \<^verbatim>\<open>tables are empty\<close>, after one count on each
  session. (The counts stand inside \<^verbatim>\<open>if self.count_only is True\<close>, line 40; the hash
  mode counts nothing.)
\<close>

theorem count_only_empty_tables_inconclusive:
  assumes "count_only self"
    and "map_of (tables (firstsession w)) tablename = Some t1" and "rows t1 = []"
    and "map_of (tables (secondsession w)) tablename = Some t2" and "rows t2 = []"
  shows "diff_table_data g self tablename w =
           Some (Inr (Inconclusive, ''tables are empty''),
                 w\<lparr>firstsession := sent (COUNT_SQL tablename) (firstsession w),
                   secondsession := sent (COUNT_SQL tablename) (secondsession w)\<rparr>)"
  using assms
  by (simp add: diff_table_data_def try_compare_counts_def compare_counts_def Table_def
        on_first_def on_second_def query_count_def)

theorem count_only_empty_tables_inconclusive_witness:
  "diff_table_data module_globals \<lparr>chunk_size = 100000, count_only = True\<rparr> ''audit_log''
     empty_world =
   Some (Inr (Inconclusive, ''tables are empty''),
         empty_world\<lparr>firstsession := sent (COUNT_SQL ''audit_log'') (firstsession empty_world),
           secondsession := sent (COUNT_SQL ''audit_log'') (secondsession empty_world)\<rparr>)"
  by (rule count_only_empty_tables_inconclusive [where ?t1.0 = audit_log and ?t2.0 = audit_log])
     (simp_all add: empty_world_def world_of_def session_of_def audit_log_def)

text \<open>
  In hash mode the empty table \<^verbatim>\<open>audit_log\<close>, which has a primary key, gets no
  verdict: the call does not return.
\<close>

theorem hash_mode_empty_tables_never_return:
  "diff_table_data module_globals \<lparr>chunk_size = 100000, count_only = False\<rparr> ''audit_log''
     empty_world = None"
proof -
  have pk: "get_pk_constraint ''audit_log'' (firstsession empty_world) = Inr [''id'']"
    by (simp add: get_pk_constraint_def empty_world_def world_of_def session_of_def
          audit_log_def)
  have "paging_loop module_globals \<lparr>chunk_size = 100000, count_only = False\<rparr>
          (template_hash \<lparr>chunk_size = 100000, count_only = False\<rparr> ''audit_log'' [''id''])
          [''id''] False 0 (initial_offsets [''id'']) empty_world = None"
  proof (rule paging_loop_on_same_table [where t = audit_log])
    show "same_table ''audit_log'' audit_log empty_world"
      by (simp add: same_table_def empty_world_def world_of_def session_of_def installed_def)
    show "\<forall>pk\<in>set [''id'']. \<exists>c. map_of (initial_offsets [''id'']) pk = Some (of_cell c)"
      by (simp add: initial_offsets_def of_cell_def exI [of _ None])
  qed (simp_all add: audit_log_def)
  with pk show ?thesis
    by (simp add: diff_table_data_def)
qed

text \<open>
  Claim C7, as the code has it: in count-only mode a table that one of the databases
  lacks gets \<open>Mismatch\<close> with \<^verbatim>\<open>table is missing\<close>, before any statement is sent.
  (The \<^verbatim>\<open>try\<close> of line 39 holds only the \<^verbatim>\<open>if self.count_only is True\<close>.)
\<close>

theorem count_only_missing_table_mismatch:
  assumes "count_only self"
    and "map_of (tables (firstsession w)) tablename = None
         \<or> map_of (tables (secondsession w)) tablename = None"
  shows "diff_table_data module_globals self tablename w
           = Some (Inr (Mismatch, ''table is missing''), w)"
proof -
  have "compare_counts tablename w = (Inl NoSuchTableError, w)"
    using assms(2) by (auto simp add: compare_counts_def Table_def split: option.splits)
  moreover have "except_matches module_globals ''NoSuchTableError'' NoSuchTableError = Inr True"
    by (simp add: except_matches_def lookup_global_def module_globals_def isinstance_def)
  ultimately show ?thesis
    using assms(1) by (simp add: diff_table_data_def try_compare_counts_def)
qed

theorem count_only_missing_table_mismatch_witness:
  "diff_table_data module_globals \<lparr>chunk_size = 100000, count_only = True\<rparr> ''orders''
     missing_on_second = Some (Inr (Mismatch, ''table is missing''), missing_on_second)"
  by (rule count_only_missing_table_mismatch)
     (simp_all add: missing_on_second_def world_of_def session_of_def)

text \<open>
  In hash mode a table the first database lacks makes \<^verbatim>\<open>get_pk_constraint\<close> raise
  \<^verbatim>\<open>NoSuchTableError\<close> outside the \<^verbatim>\<open>try\<close>; a table the second database lacks
  makes its page query fail, and \<^verbatim>\<open>retry\<close> raises \<^verbatim>\<open>NameError\<close>. Neither is a
  verdict.
\<close>

theorem hash_mode_missing_table_raises:
  "diff_table_data module_globals \<lparr>chunk_size = 100000, count_only = False\<rparr> ''orders''
     missing_on_first = Some (Inl NoSuchTableError, missing_on_first)
   \<and> map_option fst
       (diff_table_data module_globals \<lparr>chunk_size = 100000, count_only = False\<rparr> ''orders''
          missing_on_second) = Some (Inl NameError)"
proof
  show "diff_table_data module_globals \<lparr>chunk_size = 100000, count_only = False\<rparr> ''orders''
     missing_on_first = Some (Inl NoSuchTableError, missing_on_first)"
    by (simp add: diff_table_data_def get_pk_constraint_def missing_on_first_def world_of_def
          session_of_def)
  let ?self = "\<lparr>chunk_size = 100000, count_only = False\<rparr>"
  let ?q = "template_hash ?self ''orders'' [''id'']"
  let ?offsets = "AList.update ''has_offset'' (PyBool False) (initial_offsets [''id''])"
  have pk: "get_pk_constraint ''orders'' (firstsession missing_on_second) = Inr [''id'']"
    by (simp add: get_pk_constraint_def missing_on_second_def world_of_def session_of_def
          orders_def)
  have "\<exists>r w1. on_first (execute_page ?q ?offsets) missing_on_second = (Inr r, w1)
     \<and> secondsession w1 = secondsession missing_on_second"
    by (simp add: on_first_def execute_page_def answer_page_def template_hash_def
          missing_on_second_def world_of_def session_of_def installed_def orders_def
          initial_offsets_def bind_has_offset_def Let_def)
  then obtain r w1 where f: "on_first (execute_page ?q ?offsets) missing_on_second = (Inr r, w1)"
    and s: "secondsession w1 = secondsession missing_on_second"
    by blast
  have r1: "retry module_globals (on_first (execute_page ?q ?offsets)) missing_on_second
              = (Inr r, w1)"
    using f by (rule retry_returns)
  have "\<exists>w2. on_second (execute_page ?q ?offsets) w1 = (Inl ProgrammingError, w2)"
    by (simp add: on_second_def execute_page_def s template_hash_def missing_on_second_def
          world_of_def session_of_def)
  then obtain w2 where "on_second (execute_page ?q ?offsets) w1 = (Inl ProgrammingError, w2)" ..
  then have r2: "retry module_globals (on_second (execute_page ?q ?offsets)) w1
                   = (Inl NameError, w2)"
    by (rule retry_raises_NameError)
  show "map_option fst (diff_table_data module_globals ?self ''orders'' missing_on_second)
          = Some (Inl NameError)"
    by (simp add: diff_table_data_def pk) (subst paging_loop.simps, simp add: r1 r2)
qed






subsection \<open>Installing the aggregate\<close>



text \<open>Once the aggregate is there, the statement fails on the first session.\<close>

lemma create_aggregate_functions_installed:
  "''public.last'' \<in> set (routines (firstsession w)) \<Longrightarrow>
     fst (create_aggregate_functions w) = Inl ProgrammingError"
  by (simp add: create_aggregate_functions_def on_first_def execute_stmt_def stmt_def Let_def)

lemma create_aggregate_functions_again:
  "create_aggregate_functions w = (Inr u, w') \<Longrightarrow>
     fst (create_aggregate_functions w') = Inl ProgrammingError"
proof (rule create_aggregate_functions_installed)
  assume "create_aggregate_functions w = (Inr u, w')"
  then show "''public.last'' \<in> set (routines (firstsession w'))"
    by (auto simp add: create_aggregate_functions_def on_first_def on_second_def
          execute_stmt_def stmt_def Let_def split: if_splits prod.splits sum.splits)
qed

text \<open>
  Claim C10. The spec: installing the aggregate is idempotent, so a second run against
  the same databases is safe. The text of \<^verbatim>\<open>stmt\<close> creates the function with
  \<^verbatim>\<open>CREATE OR REPLACE FUNCTION\<close> but the aggregate with a plain
  \<^verbatim>\<open>CREATE AGGREGATE\<close> (line 197). On two databases that have neither, the first
  call succeeds and the second raises \<^verbatim>\<open>ProgrammingError\<close>; so does a second
  \<^verbatim>\<open>diff_all_table_data\<close> (here in count-only mode) after a first one that returned.
\<close>

theorem create_aggregate_functions_fails_second_time:
  "fst (create_aggregate_functions two_tables) = Inr ()
   \<and> fst (create_aggregate_functions (snd (create_aggregate_functions two_tables)))
       = Inl ProgrammingError
   \<and> map_option fst
       (diff_all_table_data module_globals \<lparr>chunk_size = 100000, count_only = True\<rparr> two_tables)
       = Some (Inr 1)
   \<and> map_option fst
       (case diff_all_table_data module_globals \<lparr>chunk_size = 100000, count_only = True\<rparr>
               two_tables of
          None \<Rightarrow> None
        | Some (code, w') \<Rightarrow>
            diff_all_table_data module_globals \<lparr>chunk_size = 100000, count_only = True\<rparr> w')
       = Some (Inl ProgrammingError)"
  by (intro conjI; code_simp)

subsection \<open>The exit codes\<close>




















end
